theory Spec2Isabelle
  imports Main
begin

section \<open>The standalone widget of ManualAddressForm.tsx\<close>

text \<open>
  The script block that \<open>generateStandaloneWidget\<close> emits is embedded function by
  function. A JavaScript string is modelled as a \<open>string\<close>, the list of the bytes of
  its UTF-8 encoding: the only characters the script inspects are the ASCII digits and
  the space, each one byte that occurs in no multi-byte sequence, so filtering, matching
  and splitting agree with the same operations on UTF-16 code units.
\<close>

subsection \<open>Regular expressions of the script\<close>

text \<open>The character range \<open>0-9\<close>, which is also what \<open>\d\<close> matches in JavaScript.\<close>

definition in_0_9 :: "char \<Rightarrow> bool" where
  "in_0_9 c = ((48::nat) \<le> of_char c \<and> of_char c \<le> (57::nat))"

text \<open>
  \<open>\d{n}\<close> at the head of the input: the rest of the input after \<open>n\<close> digits, or
  \<open>None\<close> when the match fails.
\<close>

fun match_digits :: "nat \<Rightarrow> string \<Rightarrow> string option" where
  "match_digits 0 s = Some s"
| "match_digits (Suc n) [] = None"
| "match_digits (Suc n) (c # cs) = (if in_0_9 c then match_digits n cs else None)"

text \<open>
  \<open>/^\d{8}$/.test(number)\<close>: \<open>^\<close> pins the match to index 0 and \<open>$\<close> (no \<open>m\<close>
  flag) is satisfied at the end of the input only.
\<close>

definition validatePhoneNumber :: "string \<Rightarrow> bool" where
  "validatePhoneNumber number =
     (case match_digits 8 number of None \<Rightarrow> False | Some rest \<Rightarrow> rest = [])"

text \<open>
  \<open>s.replace(/[cls]/g, replacement)\<close> for a one-character class: scanning from the
  left, every character of the class is replaced, every other character is copied.
\<close>

fun replace_class_g :: "(char \<Rightarrow> bool) \<Rightarrow> string \<Rightarrow> string \<Rightarrow> string" where
  "replace_class_g cls replacement [] = []"
| "replace_class_g cls replacement (c # cs) =
     (if cls c then replacement @ replace_class_g cls replacement cs
      else c # replace_class_g cls replacement cs)"

text \<open>
  \<open>value.replace(/[^0-9]/g, '')\<close>, the expression bound to \<open>sanitized\<close> in
  \<open>handlePhoneChange\<close> and in the paste listener.
\<close>

definition sanitize :: "string \<Rightarrow> string" where
  "sanitize v = replace_class_g (\<lambda>c. \<not> in_0_9 c) [] v"

subsection \<open>Array operations of the manual-entry form\<close>

text \<open>
  \<open>s.split(sep)\<close> for a one-character separator: the pieces between the separators,
  \<open>['']\<close> for the empty string.
\<close>

fun split :: "char \<Rightarrow> string \<Rightarrow> string list" where
  "split sep [] = [[]]"
| "split sep (c # cs) =
     (if c = sep then [] # split sep cs
      else (case split sep cs of [] \<Rightarrow> [[c]] | p # ps \<Rightarrow> (c # p) # ps))"

text \<open>\<open>xs[0]\<close>: \<open>undefined\<close> (here \<open>None\<close>) on the empty array.\<close>

definition index0 :: "'a list \<Rightarrow> 'a option" where
  "index0 xs = (case xs of [] \<Rightarrow> None | x # _ \<Rightarrow> Some x)"

text \<open>\<open>xs.slice(1)\<close>.\<close>

definition slice1 :: "'a list \<Rightarrow> 'a list" where
  "slice1 xs = drop 1 xs"

text \<open>\<open>xs.join(sep)\<close> for a one-character separator.\<close>

fun join :: "char \<Rightarrow> string list \<Rightarrow> string" where
  "join sep [] = []"
| "join sep [p] = p"
| "join sep (p # q # ps) = p @ sep # join sep (q # ps)"

text \<open>\<open>v || ''\<close> on a string or \<open>undefined\<close>: both \<open>undefined\<close> and \<open>''\<close> are falsy.\<close>

definition or_empty :: "string option \<Rightarrow> string" where
  "or_empty v = (case v of None \<Rightarrow> [] | Some s \<Rightarrow> (if s = [] then [] else s))"

text \<open>The two name fields of \<open>manualData\<close>, from the value of \<open>#manual-name\<close>.\<close>

definition firstName_of :: "string \<Rightarrow> string" where
  "firstName_of name = or_empty (index0 (split (CHR '' '') name))"

definition lastName_of :: "string \<Rightarrow> string" where
  "lastName_of name = or_empty (Some (join (CHR '' '') (slice1 (split (CHR '' '') name))))"

subsection \<open>Translation tables\<close>

text \<open>
  The two tables of \<open>generateStandaloneWidget\<close>; \<open>TRANSLATIONS\<close> in the script is the
  table of the language the widget was generated for. The Norwegian letters are written
  as their UTF-8 bytes.
\<close>

record translation =
  check :: string
  phoneInputHelper :: string
  phoneNumberPlaceholder :: string
  phoneValidationError :: string
  addressFound :: string
  timeoutError :: string
  lookupFailed :: string
  manualEntryPrompt :: string
  manualEntryTitle :: string
  deliveryCheckFailed :: string
  deliveryUnavailable :: string

datatype lang = No | En

definition a_ring :: string where
  "a_ring = [CHR 0xC3, CHR 0xA5]"

definition ae_lig :: string where
  "ae_lig = [CHR 0xC3, CHR 0xA6]"

definition o_slash :: string where
  "o_slash = [CHR 0xC3, CHR 0xB8]"

fun translations_of :: "lang \<Rightarrow> translation" where
  "translations_of No = \<lparr>
     check = ''Sjekk'',
     phoneInputHelper = ''Skriv inn ditt 8-sifrede norske telefonnummer for '' @ a_ring
       @ '' finne din adresse automatisk.'',
     phoneNumberPlaceholder = ''12345678'',
     phoneValidationError = ''Telefonnummeret m'' @ a_ring @ '' v'' @ ae_lig @ ''re 8 siffer.'',
     addressFound = ''Adresse funnet! Oppdaterer leveringsvalg...'',
     timeoutError = ''Foresp'' @ o_slash @ ''rselen tok for lang tid. Pr'' @ o_slash
       @ ''v igjen eller skriv inn adressen manuelt.'',
     lookupFailed = ''Kunne ikke finne adresse for dette telefonnummeret.'',
     manualEntryPrompt = ''Vennligst fyll inn adressen manuelt.'',
     manualEntryTitle = ''Fyll inn adresse manuelt'',
     deliveryCheckFailed = ''Kunne ikke hente leveringsalternativer.'',
     deliveryUnavailable = ''Ingen levering tilgjengelig for dette postnummeret.'' \<rparr>"
| "translations_of En = \<lparr>
     check = ''Check'',
     phoneInputHelper =
       ''Enter your 8-digit Norwegian phone number to automatically find your address.'',
     phoneNumberPlaceholder = ''12345678'',
     phoneValidationError = ''Phone number must be 8 digits.'',
     addressFound = ''Address found! Updating delivery options...'',
     timeoutError = ''Request took too long. Please try again or enter the address manually.'',
     lookupFailed = ''Could not find address for this phone number.'',
     manualEntryPrompt = ''Please enter the address manually.'',
     manualEntryTitle = ''Enter Address Manually'',
     deliveryCheckFailed = ''Failed to fetch delivery options.'',
     deliveryUnavailable = ''No delivery available for this postal code.'' \<rparr>"

subsection \<open>Environment, errors, responses, messages and effects\<close>

text \<open>
  What the script reads but never writes: the API base URL, the language of its
  translation table, and whether \<open>window.parent !== window\<close> (\<open>window.parent\<close> itself
  is always an object, so the test \<open>window.parent && window.parent !== window\<close> is
  this flag).
\<close>

record env =
  API_URL :: string
  language :: lang
  embedded :: bool

definition TRANSLATIONS :: "env \<Rightarrow> translation" where
  "TRANSLATIONS env = translations_of (language env)"

text \<open>A JavaScript \<open>Error\<close>; the script reads nothing of it but \<open>message\<close>.\<close>

datatype error = Error string

fun message :: "error \<Rightarrow> string" where
  "message (Error m) = m"

text \<open>
  A fetch \<open>Response\<close>: its status; \<open>response.ok\<close> is true for the statuses 200 to 299.
\<close>

record response =
  status :: nat

definition ok :: "response \<Rightarrow> bool" where
  "ok r = (200 \<le> status r \<and> status r \<le> 299)"

text \<open>
  The objects passed to \<open>window.parent.postMessage(_, '*')\<close>. The address data is
  opaque to the script, hence the type parameter; a field the script leaves out of an
  object literal is \<open>None\<close> (\<open>False\<close> for \<open>manualEntry\<close>, which is only ever
  \<open>true\<close> or absent).
\<close>

record 'a popup_data =
  data_phoneNumber :: string
  data_address :: "'a option"
  data_manualEntry :: bool
  data_error :: "string option"

record manualData =
  md_phoneNumber :: string
  firstName :: string
  lastName :: string
  md_address :: string
  postalCode :: string
  city :: string

datatype 'a payload = Popup "'a popup_data" | Manual manualData

record 'a post =
  msg_type :: string
  msg_data :: "'a payload"

text \<open>
  The observable actions of the script, in the order it performs them. A toast carries
  its text and the \<open>isError\<close> flag; the modal carries its advisory text and the phone
  number it is prefilled with.
\<close>

datatype 'a effect =
    Fetch string string
  | PostMessage "'a post"
  | ShowToast string bool
  | ShowManualEntryPopup string string
  | CloseManualEntryPopup
  | ConsoleLog string
  | ConsoleError error

subsection \<open>The timeout race\<close>

text \<open>
  \<open>callWithTimeout(promise, timeoutMs)\<close> is a state machine driven by the event loop,
  which delivers the settlement of the supplied promise (\<open>Inr\<close> its value, \<open>Inl\<close> its
  rejection) and the expiry of the timer in some order. \<open>settled\<close> is what the promise
  returned by \<open>callWithTimeout\<close> has settled with (\<open>None\<close> while pending);
  \<open>timeoutHandle\<close> is the delay of the timer while it is armed, \<open>None\<close> once it has
  fired or \<open>clearTimeout\<close> has run. A step is one task of the event loop together with
  the promise reactions it triggers: \<open>Promise.race\<close> adopts the first settlement, the
  \<open>await\<close> resumes in the \<open>try\<close> or the \<open>catch\<close> branch, both of which clear the
  timer, and the result is returned or rethrown.
\<close>

datatype 'r race_event = CallSettles "error + 'r" | TimerFires

record 'r race =
  settled :: "(error + 'r) option"
  timeoutHandle :: "nat option"

definition race_start :: "nat \<Rightarrow> 'r race" where
  "race_start timeoutMs = \<lparr> settled = None, timeoutHandle = Some timeoutMs \<rparr>"

fun race_step :: "'r race \<Rightarrow> 'r race_event \<Rightarrow> 'r race" where
  "race_step st (CallSettles r) =
     (if settled st = None then st\<lparr> settled := Some r, timeoutHandle := None \<rparr> else st)"
| "race_step st TimerFires =
     (if timeoutHandle st = None then st
      else if settled st = None
        then st\<lparr> settled := Some (Inl (Error ''ApiTimeoutError'')), timeoutHandle := None \<rparr>
        else st\<lparr> timeoutHandle := None \<rparr>)"

definition callWithTimeout :: "'r race_event list \<Rightarrow> nat \<Rightarrow> 'r race" where
  "callWithTimeout promise_events timeoutMs = foldl race_step (race_start timeoutMs) promise_events"

text \<open>The two sides of the claim about the race, read off a run.\<close>

definition rejects_with_ApiTimeoutError :: "'r race \<Rightarrow> bool" where
  "rejects_with_ApiTimeoutError st =
     (case settled st of Some (Inl e) \<Rightarrow> message e = ''ApiTimeoutError'' | _ \<Rightarrow> False)"

fun timer_first :: "'r race_event list \<Rightarrow> bool" where
  "timer_first (TimerFires # _) = True"
| "timer_first _ = False"

fun call_rejections :: "'r race_event list \<Rightarrow> error list" where
  "call_rejections [] = []"
| "call_rejections (CallSettles (Inl e) # evs) = e # call_rejections evs"
| "call_rejections (_ # evs) = call_rejections evs"

subsection \<open>The widget's state\<close>

text \<open>
  The two globals of the script, the properties of the DOM elements it writes, and the
  number of activations of \<open>handleSubmit\<close> suspended at each of its two \<open>await\<close>s.
  \<open>buttonText_display\<close>, \<open>spinner_display\<close> and \<open>errorMessage_display\<close> are
  \<open>True\<close> for \<open>style.display = 'block'\<close> and \<open>False\<close> for \<open>'none'\<close>.
\<close>

record widget =
  phoneNumber :: string
  isLoading :: bool
  input_value :: string
  input_disabled :: bool
  button_disabled :: bool
  buttonText_display :: bool
  spinner_display :: bool
  errorMessage_text :: string
  errorMessage_display :: bool
  awaiting_lookup :: nat
  awaiting_json :: nat

text \<open>
  The page as loaded: the markup, the two \<open>let\<close>s, and the last line of the script,
  which disables the button.
\<close>

definition initial :: widget where
  "initial = \<lparr>
     phoneNumber = [], isLoading = False, input_value = [], input_disabled = False,
     button_disabled = True, buttonText_display = True, spinner_display = False,
     errorMessage_text = [], errorMessage_display = False,
     awaiting_lookup = 0, awaiting_json = 0 \<rparr>"

definition handlePhoneChange :: "env \<Rightarrow> string \<Rightarrow> widget \<Rightarrow> widget" where
  "handlePhoneChange env v w =
     (let sanitized = sanitize v;
          w1 = w\<lparr> phoneNumber := sanitized \<rparr>;
          w2 = (if input_value w1 \<noteq> sanitized then w1\<lparr> input_value := sanitized \<rparr> else w1);
          isValid = validatePhoneNumber sanitized;
          hasValue = (length sanitized > 0);
          w3 = (if hasValue \<and> \<not> isValid
                then w2\<lparr> errorMessage_text := phoneValidationError (TRANSLATIONS env),
                         errorMessage_display := True \<rparr>
                else w2\<lparr> errorMessage_display := False \<rparr>)
      in w3\<lparr> button_disabled := (\<not> isValid \<or> isLoading w3) \<rparr>)"

text \<open>
  The callback that the \<open>paste\<close> listener defers to the next tick; \<open>e.target\<close> is
  the phone field.
\<close>

definition paste_listener :: "env \<Rightarrow> widget \<Rightarrow> widget" where
  "paste_listener env w =
     (let v = input_value w; sanitized = sanitize v
      in if v \<noteq> sanitized
         then handlePhoneChange env sanitized (w\<lparr> input_value := sanitized \<rparr>)
         else w)"

definition showToast :: "string \<Rightarrow> bool \<Rightarrow> 'a effect list" where
  "showToast msg isError = [ShowToast msg isError]"

definition setLoading :: "bool \<Rightarrow> widget \<Rightarrow> widget" where
  "setLoading loading w =
     (let w1 = w\<lparr> isLoading := loading \<rparr>
      in if loading
         then w1\<lparr> buttonText_display := False, spinner_display := True,
                  button_disabled := True, input_disabled := True \<rparr>
         else w1\<lparr> buttonText_display := True, spinner_display := False,
                  button_disabled := (\<not> validatePhoneNumber (phoneNumber w1)),
                  input_disabled := False \<rparr>)"

text \<open>
  \<open>showManualEntryPopup(errorMessage)\<close> appends the modal, whose read-only phone field
  is prefilled with the global \<open>phoneNumber\<close>; \<open>closeManualEntryPopup()\<close> removes it.
\<close>

definition showManualEntryPopup :: "string \<Rightarrow> widget \<Rightarrow> 'a effect list" where
  "showManualEntryPopup errorMessage w = [ShowManualEntryPopup errorMessage (phoneNumber w)]"

definition closeManualEntryPopup :: "'a effect list" where
  "closeManualEntryPopup = [CloseManualEntryPopup]"

text \<open>The fields of the modal's form, and its \<open>submit\<close> listener.\<close>

record manual_form =
  manual_phone :: string
  manual_name :: string
  manual_address :: string
  manual_postal :: string
  manual_city :: string

definition manual_submit :: "env \<Rightarrow> manual_form \<Rightarrow> 'a effect list" where
  "manual_submit env form =
     (let manualData = \<lparr>
            md_phoneNumber = manual_phone form,
            firstName = firstName_of (manual_name form),
            lastName = lastName_of (manual_name form),
            md_address = manual_address form,
            postalCode = manual_postal form,
            city = manual_city form \<rparr>
      in (if embedded env
          then [PostMessage \<lparr> msg_type = ''deliverease-manual-data'', msg_data = Manual manualData \<rparr>]
          else [])
         @ closeManualEntryPopup
         @ showToast ''Address information submitted successfully!'' False)"

subsection \<open>handleSubmit\<close>

text \<open>
  The \<open>if (embedded) postMessage(manual entry) else showManualEntryPopup\<close> statement,
  which the rate-limit branch and the \<open>catch\<close> block both contain, with their
  advisory text.
\<close>

definition manual_entry_request :: "env \<Rightarrow> string \<Rightarrow> widget \<Rightarrow> 'a effect list" where
  "manual_entry_request env advisory w =
     (if embedded env
      then [PostMessage \<lparr> msg_type = ''deliverease-open-popup'',
              msg_data = Popup \<lparr> data_phoneNumber = phoneNumber w, data_address = None,
                data_manualEntry = True, data_error = Some advisory \<rparr> \<rparr>]
      else showManualEntryPopup advisory w)"

definition rateLimitMessage :: string where
  "rateLimitMessage =
     ''Address lookup service is temporarily busy. Please enter your address manually.''"

text \<open>
  How a stretch of the \<open>try\<close> block ends: by throwing, by leaving the block (the
  \<open>return\<close> of the rate-limit branch or its last statement) with the state and the
  effects so far, or suspended at \<open>await response.json()\<close>. Nothing is written before
  a \<open>throw\<close>, so \<open>Thrown\<close> carries no state.
\<close>

datatype 'a try_result = Thrown error | Left widget "'a effect list" | Suspended

text \<open>
  From the guard to \<open>await callWithTimeout(fetch(...), 8000)\<close>. The \<open>Fetch\<close> effect
  carries the URL and the \<open>phone_number\<close> of the body.
\<close>

definition handleSubmit_start :: "env \<Rightarrow> widget \<Rightarrow> widget \<times> 'a effect list" where
  "handleSubmit_start env w =
     (if \<not> validatePhoneNumber (phoneNumber w) \<or> isLoading w then (w, [])
      else ((setLoading True w)\<lparr> awaiting_lookup := Suc (awaiting_lookup w) \<rparr>,
            [Fetch (API_URL env @ ''/addresslookup/address'') (phoneNumber w)]))"

text \<open>
  The \<open>try\<close> block from the settlement of \<open>callWithTimeout\<close> (\<open>Inl\<close> its rejection,
  \<open>Inr\<close> the response) to \<open>await response.json()\<close>.
\<close>

definition try_after_lookup :: "env \<Rightarrow> error + response \<Rightarrow> widget \<Rightarrow> 'a try_result" where
  "try_after_lookup env r w =
     (case r of
        Inl error \<Rightarrow> Thrown error
      | Inr response \<Rightarrow>
          if status response = 429 \<or> status response = 503
          then Left w (ConsoleLog ''API rate limited or unavailable, showing manual entry''
                        # manual_entry_request env rateLimitMessage w)
          else if \<not> ok response then Thrown (Error ''Address lookup failed'')
          else Suspended)"

text \<open>
  The \<open>try\<close> block from the settlement of \<open>response.json()\<close> (\<open>Inl\<close> its rejection,
  \<open>Inr\<close> the parsed body) to its end.
\<close>

definition try_after_json :: "env \<Rightarrow> error + 'a \<Rightarrow> widget \<Rightarrow> 'a try_result" where
  "try_after_json env j w =
     (case j of
        Inl error \<Rightarrow> Thrown error
      | Inr addressData \<Rightarrow>
          let posted = (if embedded env
                then [PostMessage \<lparr> msg_type = ''deliverease-open-popup'',
                        msg_data = Popup \<lparr> data_phoneNumber = phoneNumber w,
                          data_address = Some addressData, data_manualEntry = False,
                          data_error = None \<rparr> \<rparr>]
                else []);
              w1 = w\<lparr> input_value := [] \<rparr>;
              w2 = w1\<lparr> phoneNumber := [] \<rparr>;
              w3 = handlePhoneChange env [] w2
          in Left w3 (posted @ showToast (addressFound (TRANSLATIONS env)) False))"

definition catch_block :: "env \<Rightarrow> error \<Rightarrow> widget \<Rightarrow> 'a effect list" where
  "catch_block env error w =
     ConsoleError error
     # (let errorMessage = (if message error = ''ApiTimeoutError''
                            then timeoutError (TRANSLATIONS env)
                            else lookupFailed (TRANSLATIONS env))
        in manual_entry_request env errorMessage w)"

text \<open>
  \<open>catch\<close> and \<open>finally\<close> around a stretch of the \<open>try\<close> block that has ended; a
  suspended activation is counted and nothing else happens.
\<close>

definition catch_finally :: "env \<Rightarrow> 'a try_result \<Rightarrow> widget \<Rightarrow> widget \<times> 'a effect list" where
  "catch_finally env res w =
     (case res of
        Thrown error \<Rightarrow> (setLoading False w, catch_block env error w)
      | Left w' fx \<Rightarrow> (setLoading False w', fx)
      | Suspended \<Rightarrow> (w\<lparr> awaiting_json := Suc (awaiting_json w) \<rparr>, []))"

subsection \<open>The event loop\<close>

text \<open>
  The tasks that run code of the script. \<open>UserEdit v\<close> is the browser changing the text
  of the phone field (typing, or the insertion of a paste), \<open>OnInput\<close> the
  \<open>oninput\<close> attribute, \<open>PasteTimer\<close> the callback the paste listener defers with
  \<open>setTimeout(_, 0)\<close>, \<open>SubmitEvent\<close> the submit listener of the phone form.
  \<open>LookupSettled\<close> and \<open>JsonSettled\<close> resume an activation of \<open>handleSubmit\<close>
  suspended at the first or the second \<open>await\<close>, with what the awaited promise settled
  with; when no activation is suspended there, there is nothing to resume.
  \<open>ManualSubmit\<close> is the submit listener of the modal's form, \<open>ManualClose\<close> its
  cancel button or a click on the backdrop.
\<close>

datatype 'a event =
    UserEdit string
  | OnInput
  | PasteTimer
  | SubmitEvent
  | LookupSettled "error + response"
  | JsonSettled "error + 'a"
  | ManualSubmit manual_form
  | ManualClose

fun step :: "env \<Rightarrow> 'a event \<Rightarrow> widget \<Rightarrow> widget \<times> 'a effect list" where
  "step env (UserEdit v) w = (w\<lparr> input_value := v \<rparr>, [])"
| "step env OnInput w = (handlePhoneChange env (input_value w) w, [])"
| "step env PasteTimer w = (paste_listener env w, [])"
| "step env SubmitEvent w = handleSubmit_start env w"
| "step env (LookupSettled r) w =
     (if awaiting_lookup w = 0 then (w, [])
      else let w' = w\<lparr> awaiting_lookup := awaiting_lookup w - 1 \<rparr>
           in catch_finally env (try_after_lookup env r w') w')"
| "step env (JsonSettled j) w =
     (if awaiting_json w = 0 then (w, [])
      else let w' = w\<lparr> awaiting_json := awaiting_json w - 1 \<rparr>
           in catch_finally env (try_after_json env j w') w')"
| "step env (ManualSubmit form) w = (w, manual_submit env form)"
| "step env ManualClose w = (w, closeManualEntryPopup)"

fun run :: "env \<Rightarrow> 'a event list \<Rightarrow> widget \<Rightarrow> widget \<times> 'a effect list" where
  "run env [] w = (w, [])"
| "run env (ev # evs) w =
     (let (w1, fx1) = step env ev w; (w2, fx2) = run env evs w1 in (w2, fx1 @ fx2))"

text \<open>
  One submission: what the lookup of an activation of \<open>handleSubmit\<close> comes to, and
  the activation run from the submit event to its end with no other task in between.
  \<open>CallRejected e\<close>: \<open>callWithTimeout\<close> rejects with \<open>e\<close> (the timer's error or the
  rejection of \<open>fetch\<close>). \<open>CallResolved response j\<close>: it resolves with \<open>response\<close>,
  and \<open>response.json()\<close>, if the script calls it, settles with \<open>j\<close>.
\<close>

datatype 'a lookup = CallRejected error | CallResolved response "error + 'a"

fun lookup_events :: "'a lookup \<Rightarrow> 'a event list" where
  "lookup_events (CallRejected e) = [LookupSettled (Inl e)]"
| "lookup_events (CallResolved response j) = [LookupSettled (Inr response), JsonSettled j]"

definition submission :: "env \<Rightarrow> 'a lookup \<Rightarrow> widget \<Rightarrow> widget \<times> 'a effect list" where
  "submission env l w = run env (SubmitEvent # lookup_events l) w"

text \<open>A state in which a submit event starts a lookup: the guard passes and no activation is suspended.\<close>

definition ready :: "widget \<Rightarrow> bool" where
  "ready w = (validatePhoneNumber (phoneNumber w) \<and> \<not> isLoading w
     \<and> awaiting_lookup w = 0 \<and> awaiting_json w = 0)"

text \<open>The parts of a list of effects the claims speak of.\<close>

fun posted :: "'a effect list \<Rightarrow> 'a post list" where
  "posted [] = []"
| "posted (PostMessage m # fx) = m # posted fx"
| "posted (_ # fx) = posted fx"

fun local_ui :: "'a effect list \<Rightarrow> 'a effect list" where
  "local_ui [] = []"
| "local_ui (ShowToast t e # fx) = ShowToast t e # local_ui fx"
| "local_ui (ShowManualEntryPopup t p # fx) = ShowManualEntryPopup t p # local_ui fx"
| "local_ui (_ # fx) = local_ui fx"

fun console_errors :: "'a effect list \<Rightarrow> error list" where
  "console_errors [] = []"
| "console_errors (ConsoleError e # fx) = e # console_errors fx"
| "console_errors (_ # fx) = console_errors fx"

subsection \<open>The response classifier of the specification\<close>

text \<open>
  The terminal outcomes of a submission as the specification names them, and its
  classifier: status 429 or 503 is rate-limited; any other status outside the success
  range raises a generic failure; an exception whose message is \<open>ApiTimeoutError\<close> is
  a timeout and any other exception a generic failure; a successful response with a
  parseable body is a success carrying the body.
\<close>

datatype 'a outcome = Success 'a | RateLimited | TimedOut | GenericFailure

definition classify_exception :: "error \<Rightarrow> 'a outcome" where
  "classify_exception e = (if message e = ''ApiTimeoutError'' then TimedOut else GenericFailure)"

fun classify :: "'a lookup \<Rightarrow> 'a outcome" where
  "classify (CallRejected e) = classify_exception e"
| "classify (CallResolved response j) =
     (if status response = 429 \<or> status response = 503 then RateLimited
      else if \<not> (200 \<le> status response \<and> status response \<le> 299) then GenericFailure
      else (case j of Inr body \<Rightarrow> Success body | Inl e \<Rightarrow> classify_exception e))"

subsection \<open>Exceptions of a submission, and the message the specification prescribes\<close>

text \<open>
  The exception in which the \<open>try\<close> block of a submission ends, if it ends in one:
  read off the two stretches of the block.
\<close>

fun thrown_by :: "'a try_result \<Rightarrow> error option" where
  "thrown_by (Thrown e) = Some e"
| "thrown_by _ = None"

fun exception_of :: "env \<Rightarrow> 'a lookup \<Rightarrow> widget \<Rightarrow> error option" where
  "exception_of env (CallRejected e) w =
     thrown_by (try_after_lookup env (Inl e) w :: 'a try_result)"
| "exception_of env (CallResolved response j) w =
     (case (try_after_lookup env (Inr response) w :: 'a try_result) of
        Thrown e \<Rightarrow> Some e
      | Left _ _ \<Rightarrow> None
      | Suspended \<Rightarrow> thrown_by (try_after_json env j w))"

text \<open>
  The payload of the \<open>deliverease-open-popup\<close> message that the specification
  prescribes for an outcome: the address for a success, and for the three other
  outcomes the request for manual entry with the advisory text of the outcome.
\<close>

fun popup_for :: "env \<Rightarrow> string \<Rightarrow> 'a outcome \<Rightarrow> 'a popup_data" where
  "popup_for env phone (Success body) =
     \<lparr> data_phoneNumber = phone, data_address = Some body, data_manualEntry = False,
       data_error = None \<rparr>"
| "popup_for env phone RateLimited =
     \<lparr> data_phoneNumber = phone, data_address = None, data_manualEntry = True,
       data_error = Some rateLimitMessage \<rparr>"
| "popup_for env phone TimedOut =
     \<lparr> data_phoneNumber = phone, data_address = None, data_manualEntry = True,
       data_error = Some (timeoutError (TRANSLATIONS env)) \<rparr>"
| "popup_for env phone GenericFailure =
     \<lparr> data_phoneNumber = phone, data_address = None, data_manualEntry = True,
       data_error = Some (lookupFailed (TRANSLATIONS env)) \<rparr>"

subsection \<open>Lookups in flight\<close>



subsection \<open>Sample inputs\<close>

text \<open>
  An embedded and a standalone English widget, and the state after the user has typed
  a valid number into the fresh page.
\<close>

definition sample_embedded :: env where
  "sample_embedded = \<lparr> API_URL = ''https://api.example.no'', language = En, embedded = True \<rparr>"

definition sample_standalone :: env where
  "sample_standalone = \<lparr> API_URL = ''https://api.example.no'', language = En, embedded = False \<rparr>"

definition sample_typed :: widget where
  "sample_typed = initial\<lparr> phoneNumber := ''12345678'', input_value := ''12345678'',
     button_disabled := False \<rparr>"

definition sample_body :: "(string \<times> string) list" where
  "sample_body = [(''street'', ''Storgata 1''), (''postalCode'', ''0155''), (''city'', ''Oslo'')]"

section \<open>Validation and sanitisation\<close>

lemma match_digits_Some:
  "match_digits n s = Some r \<longleftrightarrow> (n \<le> length s \<and> (\<forall>c \<in> set (take n s). in_0_9 c) \<and> r = drop n s)"
proof (induction n s rule: match_digits.induct)
  case (1 s)
  show ?case by auto
next
  case (2 n)
  show ?case by simp
next
  case (3 n c cs)
  then show ?case by auto
qed

lemma char_of_digit_codes:
  "char_of (48::nat) = CHR ''0''" "char_of (49::nat) = CHR ''1''"
  "char_of (50::nat) = CHR ''2''" "char_of (51::nat) = CHR ''3''"
  "char_of (52::nat) = CHR ''4''" "char_of (53::nat) = CHR ''5''"
  "char_of (54::nat) = CHR ''6''" "char_of (55::nat) = CHR ''7''"
  "char_of (56::nat) = CHR ''8''" "char_of (57::nat) = CHR ''9''"
  by code_simp+

lemma in_0_9_iff: "in_0_9 c \<longleftrightarrow> c \<in> set ''0123456789''"
proof
  assume "c \<in> set ''0123456789''"
  then show "in_0_9 c" by (auto simp: in_0_9_def)
next
  assume h: "in_0_9 c"
  define k where "k = (of_char c :: nat)"
  from h have "48 \<le> k" "k \<le> 57"
    unfolding in_0_9_def k_def by simp_all
  then have "k = 48 \<or> k = 49 \<or> k = 50 \<or> k = 51 \<or> k = 52 \<or> k = 53 \<or> k = 54 \<or> k = 55
      \<or> k = 56 \<or> k = 57"
    by arith
  then have "char_of k \<in> set ''0123456789''"
    by (auto simp: char_of_digit_codes)
  moreover have "char_of k = c" by (simp add: k_def)
  ultimately show "c \<in> set ''0123456789''"
    by simp
qed

text \<open>
  C7. \<open>validatePhoneNumber s\<close> holds exactly when \<open>s\<close> consists of exactly 8 decimal
  digits; it holds for 12345678 and fails for 1234567, 123456789 and 1234567a.
\<close>

theorem validatePhoneNumber_iff_8_digits:
  "(validatePhoneNumber s \<longleftrightarrow> length s = 8 \<and> (\<forall>c \<in> set s. c \<in> set ''0123456789''))
   \<and> validatePhoneNumber ''12345678''
   \<and> \<not> validatePhoneNumber ''1234567''
   \<and> \<not> validatePhoneNumber ''123456789''
   \<and> \<not> validatePhoneNumber ''1234567a''"
proof -
  have "validatePhoneNumber s \<longleftrightarrow> match_digits 8 s = Some []"
    by (auto simp: validatePhoneNumber_def split: option.splits)
  also have "\<dots> \<longleftrightarrow> length s = 8 \<and> (\<forall>c \<in> set s. in_0_9 c)"
    unfolding match_digits_Some by auto
  finally have gen: "validatePhoneNumber s \<longleftrightarrow> length s = 8 \<and> (\<forall>c \<in> set s. c \<in> set ''0123456789'')"
    unfolding in_0_9_iff .
  have ex: "validatePhoneNumber ''12345678''" "\<not> validatePhoneNumber ''1234567''"
    "\<not> validatePhoneNumber ''123456789''" "\<not> validatePhoneNumber ''1234567a''"
    by (simp_all add: validatePhoneNumber_def in_0_9_def eval_nat_numeral)
  from gen ex show ?thesis by blast
qed

theorem validatePhoneNumber_iff_8_digits_witness:
  "validatePhoneNumber ''40012345'' \<and> length ''40012345'' = 8
   \<and> set ''40012345'' \<subseteq> set ''0123456789''"
  using validatePhoneNumber_iff_8_digits [of "''40012345''"] by simp

lemma replace_class_g_empty: "replace_class_g cls [] v = filter (\<lambda>c. \<not> cls c) v"
  by (induction v) simp_all

lemma sanitize_filter: "sanitize v = filter in_0_9 v"
  by (simp add: sanitize_def replace_class_g_empty)

text \<open>
  C8. For every input \<open>x\<close>, \<open>sanitize x\<close> is \<open>x\<close> with every character that is not a
  decimal digit stripped, so it contains only decimal digits, and sanitising twice is
  the same as sanitising once. It is what a keystroke leaves in the stored number and
  in the field, and what the deferred paste callback leaves in the field.
\<close>

theorem sanitize_digits_idempotent:
  "sanitize x = filter (\<lambda>c. c \<in> set ''0123456789'') x
   \<and> (\<forall>c \<in> set (sanitize x). c \<in> set ''0123456789'')
   \<and> sanitize (sanitize x) = sanitize x
   \<and> phoneNumber (handlePhoneChange env x w) = sanitize x
   \<and> input_value (handlePhoneChange env x w) = sanitize x
   \<and> input_value (paste_listener env w) = sanitize (input_value w)"
proof -
  have f: "sanitize x = filter (\<lambda>c. c \<in> set ''0123456789'') x"
    unfolding sanitize_filter by (rule filter_cong) (simp_all only: in_0_9_iff)
  have d: "\<forall>c \<in> set (sanitize x). c \<in> set ''0123456789''"
    unfolding sanitize_filter by (simp only: set_filter in_0_9_iff) blast
  have i: "sanitize (sanitize y) = sanitize y" for y
    by (simp add: sanitize_filter)
  have h: "phoneNumber (handlePhoneChange env y w') = sanitize y"
    "input_value (handlePhoneChange env y w') = sanitize y" for y w'
    by (simp_all add: handlePhoneChange_def Let_def)
  have p: "input_value (paste_listener env w) = sanitize (input_value w)"
    by (simp add: paste_listener_def Let_def h i)
  from f d i [of x] h [of x w] p show ?thesis by blast
qed

theorem sanitize_digits_idempotent_witness:
  "sanitize ''+47 400-12 345x'' = ''4740012345''
   \<and> set (sanitize ''+47 400-12 345x'') \<subseteq> set ''0123456789''
   \<and> sanitize (sanitize ''+47 400-12 345x'') = sanitize ''+47 400-12 345x''
   \<and> phoneNumber (handlePhoneChange sample_embedded ''+47 400-12 345x'' initial) = ''4740012345''"
  using sanitize_digits_idempotent [of "''+47 400-12 345x''" sample_embedded initial]
  by (simp add: sanitize_def in_0_9_def)

section \<open>The name fields of the manual-entry form\<close>







section \<open>The timeout race\<close>

lemma race_step_done:
  "settled st \<noteq> None \<Longrightarrow> timeoutHandle st = None \<Longrightarrow> race_step st ev = st"
  by (cases ev) auto

lemma race_run_done:
  "settled st \<noteq> None \<Longrightarrow> timeoutHandle st = None \<Longrightarrow> foldl race_step st evs = st"
  by (induction evs) (simp_all add: race_step_done)

lemma race_first_event:
  "callWithTimeout (ev # rest) timeoutMs = race_step (race_start timeoutMs) ev"
proof -
  let ?st = "race_step (race_start timeoutMs) ev"
  have "settled ?st \<noteq> None" "timeoutHandle ?st = None"
    by (cases ev; simp add: race_start_def)+
  then have "foldl race_step ?st rest = ?st"
    by (rule race_run_done)
  then show ?thesis by (simp add: callWithTimeout_def)
qed

lemma race_call_first:
  "callWithTimeout (CallSettles r # rest) timeoutMs = \<lparr> settled = Some r, timeoutHandle = None \<rparr>"
  by (simp add: race_first_event race_start_def)

lemma race_timer_first:
  "callWithTimeout (TimerFires # rest) timeoutMs =
     \<lparr> settled = Some (Inl (Error ''ApiTimeoutError'')), timeoutHandle = None \<rparr>"
  by (simp add: race_first_event race_start_def)

text \<open>
  C3, as amended. Whenever the timer fires before the supplied call settles,
  \<open>callWithTimeout\<close> rejects with the error \<open>ApiTimeoutError\<close>. When the call
  settles first, the timer is cleared and the value or the rejection of the call is
  passed on unchanged. Every later event, the late settlement of the loser included,
  leaves the state as it was after the first. A rejection with the message
  \<open>ApiTimeoutError\<close> means that the timer fired first exactly when the supplied call
  does not itself reject with an error of that message.
\<close>

theorem callWithTimeout_race:
  "(timer_first evs \<longrightarrow>
      settled (callWithTimeout evs timeoutMs) = Some (Inl (Error ''ApiTimeoutError'')))
   \<and> settled (callWithTimeout (CallSettles r # rest) timeoutMs) = Some r
   \<and> timeoutHandle (callWithTimeout (CallSettles r # rest) timeoutMs) = None
   \<and> callWithTimeout (ev # rest) timeoutMs = callWithTimeout [ev] timeoutMs
   \<and> ((\<forall>e \<in> set (call_rejections evs). message e \<noteq> ''ApiTimeoutError'') \<longrightarrow>
        (rejects_with_ApiTimeoutError (callWithTimeout evs timeoutMs) \<longleftrightarrow> timer_first evs))"
proof -
  have t: "settled (callWithTimeout evs timeoutMs) = Some (Inl (Error ''ApiTimeoutError''))"
    if "timer_first evs"
    using that by (cases evs rule: timer_first.cases) (simp_all add: race_timer_first)
  have c: "settled (callWithTimeout (CallSettles r # rest) timeoutMs) = Some r"
    "timeoutHandle (callWithTimeout (CallSettles r # rest) timeoutMs) = None"
    by (simp_all add: race_call_first)
  have l: "callWithTimeout (ev # rest) timeoutMs = callWithTimeout [ev] timeoutMs"
    by (simp only: race_first_event)
  have i: "rejects_with_ApiTimeoutError (callWithTimeout evs timeoutMs) \<longleftrightarrow> timer_first evs"
    if h: "\<forall>e \<in> set (call_rejections evs). message e \<noteq> ''ApiTimeoutError''"
  proof (cases evs)
    case Nil
    then show ?thesis
      by (simp add: callWithTimeout_def race_start_def rejects_with_ApiTimeoutError_def)
  next
    case (Cons ev' rest')
    show ?thesis
    proof (cases ev')
      case TimerFires
      with Cons show ?thesis
        by (simp add: race_timer_first rejects_with_ApiTimeoutError_def)
    next
      case (CallSettles r')
      with Cons h show ?thesis
        by (cases r') (simp_all add: race_call_first rejects_with_ApiTimeoutError_def)
    qed
  qed
  from t c l i show ?thesis by blast
qed

theorem callWithTimeout_race_witness:
  "timer_first [TimerFires, CallSettles (Inr \<lparr> status = 200 \<rparr>)]
   \<and> settled (callWithTimeout [TimerFires, CallSettles (Inr \<lparr> status = 200 \<rparr>)] 8000)
       = Some (Inl (Error ''ApiTimeoutError''))
   \<and> callWithTimeout [TimerFires, CallSettles (Inr \<lparr> status = 200 \<rparr>)] 8000
       = callWithTimeout [TimerFires] 8000
   \<and> call_rejections [CallSettles (Inl (Error ''Failed to fetch'')) :: response race_event, TimerFires]
       = [Error ''Failed to fetch'']
   \<and> \<not> rejects_with_ApiTimeoutError
        (callWithTimeout [CallSettles (Inl (Error ''Failed to fetch'')) :: response race_event, TimerFires] 8000)"
  using callWithTimeout_race [of "[TimerFires, CallSettles (Inr \<lparr> status = 200 \<rparr>)]" 8000
      "Inr \<lparr> status = 200 \<rparr>" "[CallSettles (Inr \<lparr> status = 200 \<rparr>)]" TimerFires]
    callWithTimeout_race [of "[CallSettles (Inl (Error ''Failed to fetch'')) :: response race_event, TimerFires]"
      8000 "Inl (Error ''Failed to fetch'')" "[TimerFires]" TimerFires]
  by (simp add: callWithTimeout_def race_start_def)

text \<open>
  The claim as stated fails for a call that settles first and rejects with an error
  whose message is \<open>ApiTimeoutError\<close>: the rejection is passed on unchanged, and the
  timer never fired.
\<close>

theorem callWithTimeout_iff_counterexample:
  "rejects_with_ApiTimeoutError
     (callWithTimeout [CallSettles (Inl (Error ''ApiTimeoutError'')) :: response race_event] 8000)
   \<and> \<not> timer_first [CallSettles (Inl (Error ''ApiTimeoutError'')) :: response race_event]"
  by (simp add: callWithTimeout_def race_start_def rejects_with_ApiTimeoutError_def)

section \<open>One submission\<close>

lemma setLoading_fields:
  "phoneNumber (setLoading b w) = phoneNumber w"
  "input_value (setLoading b w) = input_value w"
  "isLoading (setLoading b w) = b"
  "awaiting_lookup (setLoading b w) = awaiting_lookup w"
  "awaiting_json (setLoading b w) = awaiting_json w"
  "button_disabled (setLoading b w) = (b \<or> \<not> validatePhoneNumber (phoneNumber w))"
  by (simp_all add: setLoading_def Let_def)

lemma handlePhoneChange_fields:
  "phoneNumber (handlePhoneChange env v w) = sanitize v"
  "input_value (handlePhoneChange env v w) = (if input_value w \<noteq> sanitize v then sanitize v else input_value w)"
  "isLoading (handlePhoneChange env v w) = isLoading w"
  "awaiting_lookup (handlePhoneChange env v w) = awaiting_lookup w"
  "awaiting_json (handlePhoneChange env v w) = awaiting_json w"
  "button_disabled (handlePhoneChange env v w) = (\<not> validatePhoneNumber (sanitize v) \<or> isLoading w)"
  by (simp_all add: handlePhoneChange_def Let_def)

lemma manual_entry_request_phone:
  "phoneNumber w' = phoneNumber w \<Longrightarrow>
     (manual_entry_request env advisory w' :: 'a effect list) = manual_entry_request env advisory w"
  by (simp add: manual_entry_request_def showManualEntryPopup_def)

lemma catch_block_phone:
  "phoneNumber w' = phoneNumber w \<Longrightarrow> (catch_block env e w' :: 'a effect list) = catch_block env e w"
  by (simp add: catch_block_def Let_def manual_entry_request_def showManualEntryPopup_def)

lemma submission_rejected:
  assumes "ready w"
  shows "snd (submission env (CallRejected e) w) =
     Fetch (API_URL env @ ''/addresslookup/address'') (phoneNumber w) # catch_block env e w"
    and "phoneNumber (fst (submission env (CallRejected e) w)) = phoneNumber w"
    and "input_value (fst (submission env (CallRejected e) w)) = input_value w"
proof -
  let ?w2 = "(setLoading True w)\<lparr> awaiting_lookup := 0 \<rparr>"
  have s: "submission env (CallRejected e) w =
      (setLoading False ?w2, Fetch (API_URL env @ ''/addresslookup/address'') (phoneNumber w)
        # catch_block env e ?w2)"
    using assms
    by (simp add: submission_def ready_def handleSubmit_start_def try_after_lookup_def
        catch_finally_def Let_def)
  have p: "phoneNumber ?w2 = phoneNumber w" by (simp add: setLoading_fields)
  show "snd (submission env (CallRejected e) w) =
     Fetch (API_URL env @ ''/addresslookup/address'') (phoneNumber w) # catch_block env e w"
    unfolding s using catch_block_phone [OF p] by simp
  show "phoneNumber (fst (submission env (CallRejected e) w)) = phoneNumber w"
    unfolding s by (simp add: setLoading_fields)
  show "input_value (fst (submission env (CallRejected e) w)) = input_value w"
    unfolding s by (simp add: setLoading_fields)
qed

lemma submission_rate_limited:
  assumes "ready w" and "status r = 429 \<or> status r = 503"
  shows "snd (submission env (CallResolved r j) w) =
     Fetch (API_URL env @ ''/addresslookup/address'') (phoneNumber w)
     # ConsoleLog ''API rate limited or unavailable, showing manual entry''
     # manual_entry_request env rateLimitMessage w"
    and "phoneNumber (fst (submission env (CallResolved r j) w)) = phoneNumber w"
    and "input_value (fst (submission env (CallResolved r j) w)) = input_value w"
proof -
  let ?w2 = "(setLoading True w)\<lparr> awaiting_lookup := 0 \<rparr>"
  have s: "submission env (CallResolved r j) w =
      (setLoading False ?w2, Fetch (API_URL env @ ''/addresslookup/address'') (phoneNumber w)
        # ConsoleLog ''API rate limited or unavailable, showing manual entry''
        # manual_entry_request env rateLimitMessage ?w2)"
    using assms
    by (simp add: submission_def ready_def handleSubmit_start_def try_after_lookup_def
        catch_finally_def Let_def setLoading_fields)
  have p: "phoneNumber ?w2 = phoneNumber w" by (simp add: setLoading_fields)
  show "snd (submission env (CallResolved r j) w) =
     Fetch (API_URL env @ ''/addresslookup/address'') (phoneNumber w)
     # ConsoleLog ''API rate limited or unavailable, showing manual entry''
     # manual_entry_request env rateLimitMessage w"
    unfolding s using manual_entry_request_phone [OF p] by simp
  show "phoneNumber (fst (submission env (CallResolved r j) w)) = phoneNumber w"
    unfolding s by (simp add: setLoading_fields)
  show "input_value (fst (submission env (CallResolved r j) w)) = input_value w"
    unfolding s by (simp add: setLoading_fields)
qed

lemma submission_not_ok:
  assumes "ready w" and "status r \<noteq> 429" and "status r \<noteq> 503" and "\<not> ok r"
  shows "snd (submission env (CallResolved r j) w) =
     Fetch (API_URL env @ ''/addresslookup/address'') (phoneNumber w)
     # catch_block env (Error ''Address lookup failed'') w"
    and "phoneNumber (fst (submission env (CallResolved r j) w)) = phoneNumber w"
    and "input_value (fst (submission env (CallResolved r j) w)) = input_value w"
proof -
  let ?w2 = "(setLoading True w)\<lparr> awaiting_lookup := 0 \<rparr>"
  have s: "submission env (CallResolved r j) w =
      (setLoading False ?w2, Fetch (API_URL env @ ''/addresslookup/address'') (phoneNumber w)
        # catch_block env (Error ''Address lookup failed'') ?w2)"
    using assms
    by (simp add: submission_def ready_def handleSubmit_start_def try_after_lookup_def
        catch_finally_def Let_def setLoading_fields)
  have p: "phoneNumber ?w2 = phoneNumber w" by (simp add: setLoading_fields)
  show "snd (submission env (CallResolved r j) w) =
     Fetch (API_URL env @ ''/addresslookup/address'') (phoneNumber w)
     # catch_block env (Error ''Address lookup failed'') w"
    unfolding s using catch_block_phone [OF p] by simp
  show "phoneNumber (fst (submission env (CallResolved r j) w)) = phoneNumber w"
    unfolding s by (simp add: setLoading_fields)
  show "input_value (fst (submission env (CallResolved r j) w)) = input_value w"
    unfolding s by (simp add: setLoading_fields)
qed

lemma ok_not_rate_limited: "ok r \<Longrightarrow> status r \<noteq> 429 \<and> status r \<noteq> 503"
  by (auto simp: ok_def)

lemma submission_json_failed:
  assumes "ready w" and "ok r"
  shows "snd (submission env (CallResolved r (Inl e)) w) =
     Fetch (API_URL env @ ''/addresslookup/address'') (phoneNumber w) # catch_block env e w"
    and "phoneNumber (fst (submission env (CallResolved r (Inl e)) w)) = phoneNumber w"
    and "input_value (fst (submission env (CallResolved r (Inl e)) w)) = input_value w"
proof -
  let ?w2 = "(setLoading True w)\<lparr> awaiting_lookup := 0 \<rparr>"
  let ?w3 = "?w2\<lparr> awaiting_json := 0 \<rparr>"
  have s: "submission env (CallResolved r (Inl e)) w =
      (setLoading False ?w3, Fetch (API_URL env @ ''/addresslookup/address'') (phoneNumber w)
        # catch_block env e ?w3)"
    using assms ok_not_rate_limited [of r]
    by (simp add: submission_def ready_def handleSubmit_start_def try_after_lookup_def
        try_after_json_def catch_finally_def Let_def setLoading_fields)
  have p: "phoneNumber ?w3 = phoneNumber w" by (simp add: setLoading_fields)
  show "snd (submission env (CallResolved r (Inl e)) w) =
     Fetch (API_URL env @ ''/addresslookup/address'') (phoneNumber w) # catch_block env e w"
    unfolding s using catch_block_phone [OF p] by simp
  show "phoneNumber (fst (submission env (CallResolved r (Inl e)) w)) = phoneNumber w"
    unfolding s by (simp add: setLoading_fields)
  show "input_value (fst (submission env (CallResolved r (Inl e)) w)) = input_value w"
    unfolding s by (simp add: setLoading_fields)
qed

lemma sanitize_Nil: "sanitize [] = []"
  by (simp add: sanitize_def)

lemma not_valid_Nil: "\<not> validatePhoneNumber []"
  by (simp add: validatePhoneNumber_def eval_nat_numeral)

lemma submission_success:
  assumes "ready w" and "ok r"
  shows "snd (submission env (CallResolved r (Inr body)) w) =
     Fetch (API_URL env @ ''/addresslookup/address'') (phoneNumber w)
     # (if embedded env
        then [PostMessage \<lparr> msg_type = ''deliverease-open-popup'',
                msg_data = Popup \<lparr> data_phoneNumber = phoneNumber w, data_address = Some body,
                  data_manualEntry = False, data_error = None \<rparr> \<rparr>]
        else [])
     @ [ShowToast (addressFound (TRANSLATIONS env)) False]"
    and "phoneNumber (fst (submission env (CallResolved r (Inr body)) w)) = []"
    and "input_value (fst (submission env (CallResolved r (Inr body)) w)) = []"
    and "button_disabled (fst (submission env (CallResolved r (Inr body)) w))"
proof -
  let ?w2 = "(setLoading True w)\<lparr> awaiting_lookup := 0 \<rparr>"
  let ?w3 = "?w2\<lparr> awaiting_json := 0 \<rparr>"
  let ?w4 = "handlePhoneChange env [] (?w3\<lparr> input_value := [], phoneNumber := [] \<rparr>)"
  have s: "submission env (CallResolved r (Inr body)) w =
      (setLoading False ?w4, Fetch (API_URL env @ ''/addresslookup/address'') (phoneNumber w)
     # (if embedded env
        then [PostMessage \<lparr> msg_type = ''deliverease-open-popup'',
                msg_data = Popup \<lparr> data_phoneNumber = phoneNumber w, data_address = Some body,
                  data_manualEntry = False, data_error = None \<rparr> \<rparr>]
        else [])
     @ [ShowToast (addressFound (TRANSLATIONS env)) False])"
    using assms ok_not_rate_limited [of r]
    by (simp add: submission_def ready_def handleSubmit_start_def try_after_lookup_def
        try_after_json_def catch_finally_def Let_def setLoading_fields showToast_def)
  show "snd (submission env (CallResolved r (Inr body)) w) =
     Fetch (API_URL env @ ''/addresslookup/address'') (phoneNumber w)
     # (if embedded env
        then [PostMessage \<lparr> msg_type = ''deliverease-open-popup'',
                msg_data = Popup \<lparr> data_phoneNumber = phoneNumber w, data_address = Some body,
                  data_manualEntry = False, data_error = None \<rparr> \<rparr>]
        else [])
     @ [ShowToast (addressFound (TRANSLATIONS env)) False]"
    unfolding s by simp
  show "phoneNumber (fst (submission env (CallResolved r (Inr body)) w)) = []"
    unfolding s by (simp add: setLoading_fields handlePhoneChange_fields sanitize_Nil)
  show "input_value (fst (submission env (CallResolved r (Inr body)) w)) = []"
    unfolding s by (simp add: setLoading_fields handlePhoneChange_fields sanitize_Nil)
  show "button_disabled (fst (submission env (CallResolved r (Inr body)) w))"
    unfolding s by (simp add: setLoading_fields handlePhoneChange_fields sanitize_Nil not_valid_Nil)
qed

lemma sample_typed_ready: "ready sample_typed"
  by (simp add: ready_def sample_typed_def initial_def validatePhoneNumber_def in_0_9_def
      eval_nat_numeral)

lemma sample_fields:
  "embedded sample_embedded" "\<not> embedded sample_standalone"
  "API_URL sample_embedded = ''https://api.example.no''"
  "API_URL sample_standalone = ''https://api.example.no''"
  "TRANSLATIONS sample_embedded = translations_of En"
  "TRANSLATIONS sample_standalone = translations_of En"
  "phoneNumber sample_typed = ''12345678''"
  "input_value sample_typed = ''12345678''"
  by (simp_all add: sample_embedded_def sample_standalone_def sample_typed_def initial_def
      TRANSLATIONS_def)

lemma advisory_texts_distinct: "timeoutError (TRANSLATIONS env) \<noteq> lookupFailed (TRANSLATIONS env)"
  by (cases "language env") (simp_all add: TRANSLATIONS_def)

lemma posted_manual_entry_request:
  "embedded env \<Longrightarrow> manual_entry_request env advisory w =
     [PostMessage \<lparr> msg_type = ''deliverease-open-popup'',
        msg_data = Popup \<lparr> data_phoneNumber = phoneNumber w, data_address = None,
          data_manualEntry = True, data_error = Some advisory \<rparr> \<rparr>]"
  by (simp add: manual_entry_request_def)

text \<open>
  C2. For every response with status 429 or 503 the submission is rate-limited: the
  \<open>try\<close> block throws nothing, the \<open>catch\<close> block does not run (nothing is
  logged as an error), and after the fetch and the log line the only effect is the
  request for manual entry with the fixed rate-limit text: the message to the parent
  when embedded, the local modal otherwise.
\<close>

theorem rate_limited_manual_entry:
  assumes "ready w" and "status r = 429 \<or> status r = 503"
  shows "classify (CallResolved r j) = RateLimited
    \<and> thrown_by (try_after_lookup env (Inr r) w :: 'a try_result) = None
    \<and> snd (submission env (CallResolved r (j :: error + 'a)) w) =
        [Fetch (API_URL env @ ''/addresslookup/address'') (phoneNumber w),
         ConsoleLog ''API rate limited or unavailable, showing manual entry'',
         if embedded env
         then PostMessage \<lparr> msg_type = ''deliverease-open-popup'',
                msg_data = Popup \<lparr> data_phoneNumber = phoneNumber w, data_address = None,
                  data_manualEntry = True, data_error = Some rateLimitMessage \<rparr> \<rparr>
         else ShowManualEntryPopup rateLimitMessage (phoneNumber w)]
    \<and> console_errors (snd (submission env (CallResolved r j) w)) = []"
proof -
  have c: "classify (CallResolved r j) = RateLimited"
    using assms(2) by auto
  have t: "thrown_by (try_after_lookup env (Inr r) w :: 'a try_result) = None"
    using assms(2) by (auto simp: try_after_lookup_def)
  have s: "snd (submission env (CallResolved r j) w) =
        [Fetch (API_URL env @ ''/addresslookup/address'') (phoneNumber w),
         ConsoleLog ''API rate limited or unavailable, showing manual entry'',
         if embedded env
         then PostMessage \<lparr> msg_type = ''deliverease-open-popup'',
                msg_data = Popup \<lparr> data_phoneNumber = phoneNumber w, data_address = None,
                  data_manualEntry = True, data_error = Some rateLimitMessage \<rparr> \<rparr>
         else ShowManualEntryPopup rateLimitMessage (phoneNumber w)]"
    unfolding submission_rate_limited(1) [OF assms]
    by (simp add: manual_entry_request_def showManualEntryPopup_def)
  have e: "console_errors (snd (submission env (CallResolved r j) w)) = []"
    unfolding s by simp
  from c t s e show ?thesis by blast
qed

theorem rate_limited_manual_entry_witness:
  "ready sample_typed \<and> status \<lparr> status = 429 \<rparr> = 429
   \<and> classify (CallResolved \<lparr> status = 429 \<rparr> (Inl (Error ''unused'')) :: unit lookup) = RateLimited
   \<and> snd (submission sample_standalone
          (CallResolved \<lparr> status = 429 \<rparr> (Inl (Error ''unused'')) :: unit lookup) sample_typed) =
        [Fetch ''https://api.example.no/addresslookup/address'' ''12345678'',
         ConsoleLog ''API rate limited or unavailable, showing manual entry'',
         ShowManualEntryPopup
           ''Address lookup service is temporarily busy. Please enter your address manually.''
           ''12345678'']"
proof -
  have r: "ready sample_typed" by (rule sample_typed_ready)
  have s: "status \<lparr> status = 429 \<rparr> = 429 \<or> status \<lparr> status = 429 \<rparr> = 503" by simp
  from rate_limited_manual_entry [OF r s, of "Inl (Error ''unused'') :: error + unit" sample_standalone] r
  show ?thesis
    by (simp add: sample_fields rateLimitMessage_def)
qed

lemma lookup_cases:
  obtains (rejected) e where "l = CallRejected e"
  | (rate_limited) r j where "l = CallResolved r j" "status r = 429 \<or> status r = 503"
  | (not_ok) r j where "l = CallResolved r j" "status r \<noteq> 429" "status r \<noteq> 503" "\<not> ok r"
  | (json_failed) r e where "l = CallResolved r (Inl e)" "ok r"
  | (success) r body where "l = CallResolved r (Inr body)" "ok r"
proof (cases l)
  case (CallRejected e)
  then show ?thesis by (rule rejected)
next
  case (CallResolved r j)
  show ?thesis
  proof (cases "status r = 429 \<or> status r = 503")
    case True
    with CallResolved show ?thesis by (rule rate_limited)
  next
    case False
    show ?thesis
    proof (cases "ok r")
      case no: False
      with CallResolved False show ?thesis by (auto intro: not_ok)
    next
      case yes: True
      with CallResolved show ?thesis by (cases j) (auto intro: json_failed success)
    qed
  qed
qed

lemma classify_exception_cases:
  "(classify_exception e :: 'a outcome) = TimedOut \<longleftrightarrow> message e = ''ApiTimeoutError''"
  "(classify_exception e :: 'a outcome) = GenericFailure \<longleftrightarrow> message e \<noteq> ''ApiTimeoutError''"
  "(classify_exception e :: 'a outcome) \<noteq> RateLimited"
  "(classify_exception e :: 'a outcome) \<noteq> Success body"
  by (simp_all add: classify_exception_def)

lemma exception_submission:
  assumes "ready w" and "exception_of env (l :: 'a lookup) w = Some e"
  shows "snd (submission env l w) =
      Fetch (API_URL env @ ''/addresslookup/address'') (phoneNumber w) # catch_block env e w"
    and "classify l = classify_exception e"
proof -
  have "snd (submission env l w) =
      Fetch (API_URL env @ ''/addresslookup/address'') (phoneNumber w) # catch_block env e w
      \<and> classify l = classify_exception e"
  proof (cases l rule: lookup_cases)
    case (rejected e')
    with assms(2) have "e' = e" by (simp add: try_after_lookup_def)
    with rejected submission_rejected(1) [OF assms(1)] show ?thesis by simp
  next
    case (rate_limited r j)
    with assms(2) show ?thesis by (auto simp: try_after_lookup_def)
  next
    case (not_ok r j)
    with assms(2) have "e = Error ''Address lookup failed''"
      by (simp add: try_after_lookup_def)
    with not_ok submission_not_ok(1) [OF assms(1) not_ok(2-4)] show ?thesis
      by (simp add: classify_exception_def ok_def)
  next
    case (json_failed r e')
    with assms(2) ok_not_rate_limited [of r] have "e' = e"
      by (simp add: try_after_lookup_def try_after_json_def)
    with json_failed submission_json_failed(1) [OF assms(1) json_failed(2)]
      ok_not_rate_limited [of r] show ?thesis
      by (simp add: ok_def)
  next
    case (success r body)
    with assms(2) ok_not_rate_limited [of r] show ?thesis
      by (simp add: try_after_lookup_def try_after_json_def Let_def)
  qed
  then show "snd (submission env l w) =
      Fetch (API_URL env @ ''/addresslookup/address'') (phoneNumber w) # catch_block env e w"
    and "classify l = classify_exception e" by simp_all
qed

text \<open>
  C4. For every submission whose \<open>try\<close> block ends in an exception \<open>e\<close>, the
  outcome is a timeout exactly when the message of \<open>e\<close> is \<open>ApiTimeoutError\<close> and
  a generic failure otherwise; in both cases the error is logged and manual entry is
  requested (by message when embedded, by the local modal otherwise), with the timeout
  text in the first case and the lookup-failed text in the second, and the two texts
  differ in both languages.
\<close>

theorem exception_classification:
  assumes "ready w" and "exception_of env (l :: 'a lookup) w = Some e"
  shows "(classify l = TimedOut \<longleftrightarrow> message e = ''ApiTimeoutError'')
    \<and> (classify l = GenericFailure \<longleftrightarrow> message e \<noteq> ''ApiTimeoutError'')
    \<and> snd (submission env l w) =
        [Fetch (API_URL env @ ''/addresslookup/address'') (phoneNumber w),
         ConsoleError e,
         if embedded env
         then PostMessage \<lparr> msg_type = ''deliverease-open-popup'',
                msg_data = Popup \<lparr> data_phoneNumber = phoneNumber w, data_address = None,
                  data_manualEntry = True,
                  data_error = Some (if message e = ''ApiTimeoutError''
                                     then timeoutError (TRANSLATIONS env)
                                     else lookupFailed (TRANSLATIONS env)) \<rparr> \<rparr>
         else ShowManualEntryPopup
                (if message e = ''ApiTimeoutError'' then timeoutError (TRANSLATIONS env)
                 else lookupFailed (TRANSLATIONS env))
                (phoneNumber w)]
    \<and> timeoutError (TRANSLATIONS env) \<noteq> lookupFailed (TRANSLATIONS env)"
proof -
  note x = exception_submission [OF assms]
  have t: "classify l = TimedOut \<longleftrightarrow> message e = ''ApiTimeoutError''"
    unfolding x(2) by (rule classify_exception_cases)
  have g: "classify l = GenericFailure \<longleftrightarrow> message e \<noteq> ''ApiTimeoutError''"
    unfolding x(2) by (rule classify_exception_cases)
  have s: "snd (submission env l w) =
        [Fetch (API_URL env @ ''/addresslookup/address'') (phoneNumber w),
         ConsoleError e,
         if embedded env
         then PostMessage \<lparr> msg_type = ''deliverease-open-popup'',
                msg_data = Popup \<lparr> data_phoneNumber = phoneNumber w, data_address = None,
                  data_manualEntry = True,
                  data_error = Some (if message e = ''ApiTimeoutError''
                                     then timeoutError (TRANSLATIONS env)
                                     else lookupFailed (TRANSLATIONS env)) \<rparr> \<rparr>
         else ShowManualEntryPopup
                (if message e = ''ApiTimeoutError'' then timeoutError (TRANSLATIONS env)
                 else lookupFailed (TRANSLATIONS env))
                (phoneNumber w)]"
    unfolding x(1)
    by (simp add: catch_block_def Let_def manual_entry_request_def showManualEntryPopup_def)
  from t g s advisory_texts_distinct [of env] show ?thesis by blast
qed

theorem exception_classification_witness:
  "ready sample_typed
   \<and> exception_of sample_standalone (CallRejected (Error ''ApiTimeoutError'') :: unit lookup)
        sample_typed = Some (Error ''ApiTimeoutError'')
   \<and> classify (CallRejected (Error ''ApiTimeoutError'') :: unit lookup) = TimedOut
   \<and> snd (submission sample_standalone (CallRejected (Error ''ApiTimeoutError'') :: unit lookup)
          sample_typed) =
        [Fetch ''https://api.example.no/addresslookup/address'' ''12345678'',
         ConsoleError (Error ''ApiTimeoutError''),
         ShowManualEntryPopup
           ''Request took too long. Please try again or enter the address manually.''
           ''12345678'']
   \<and> exception_of sample_embedded (CallResolved \<lparr> status = 500 \<rparr> (Inr ())) sample_typed
        = Some (Error ''Address lookup failed'')
   \<and> classify (CallResolved \<lparr> status = 500 \<rparr> (Inr ())) = GenericFailure
   \<and> snd (submission sample_embedded (CallResolved \<lparr> status = 500 \<rparr> (Inr ())) sample_typed) =
        [Fetch ''https://api.example.no/addresslookup/address'' ''12345678'',
         ConsoleError (Error ''Address lookup failed''),
         PostMessage \<lparr> msg_type = ''deliverease-open-popup'',
           msg_data = Popup \<lparr> data_phoneNumber = ''12345678'', data_address = None,
             data_manualEntry = True,
             data_error = Some ''Could not find address for this phone number.'' \<rparr> \<rparr>]"
proof -
  have r: "ready sample_typed" by (rule sample_typed_ready)
  have x1: "exception_of sample_standalone (CallRejected (Error ''ApiTimeoutError'') :: unit lookup)
        sample_typed = Some (Error ''ApiTimeoutError'')"
    by (simp add: try_after_lookup_def)
  have x2: "exception_of sample_embedded (CallResolved \<lparr> status = 500 \<rparr> (Inr ())) sample_typed
        = Some (Error ''Address lookup failed'')"
    by (simp add: try_after_lookup_def ok_def)
  from exception_classification [OF r x1] exception_classification [OF r x2] r x1 x2
  show ?thesis
    by (simp add: sample_fields)
qed

text \<open>
  C5. For every response with a status from 200 to 299 whose body parses, the
  submission is a success carrying the parsed body, no exception is thrown, and when
  embedded the one message posted is \<open>deliverease-open-popup\<close> with that body,
  unchanged, as its address.
\<close>

theorem success_payload_unchanged:
  assumes "ready w" and "200 \<le> status r" and "status r \<le> 299"
  shows "classify (CallResolved r (Inr body)) = Success body
    \<and> exception_of env (CallResolved r (Inr body)) w = None
    \<and> posted (snd (submission env (CallResolved r (Inr body)) w)) =
        (if embedded env
         then [\<lparr> msg_type = ''deliverease-open-popup'',
                 msg_data = Popup \<lparr> data_phoneNumber = phoneNumber w, data_address = Some body,
                   data_manualEntry = False, data_error = None \<rparr> \<rparr>]
         else [])"
proof -
  from assms(2,3) have k: "ok r" by (simp add: ok_def)
  have c: "classify (CallResolved r (Inr body)) = Success body"
    using assms(2,3) by auto
  have x: "exception_of env (CallResolved r (Inr body)) w = None"
    using k ok_not_rate_limited [of r]
    by (simp add: try_after_lookup_def try_after_json_def Let_def)
  have p: "posted (snd (submission env (CallResolved r (Inr body)) w)) =
        (if embedded env
         then [\<lparr> msg_type = ''deliverease-open-popup'',
                 msg_data = Popup \<lparr> data_phoneNumber = phoneNumber w, data_address = Some body,
                   data_manualEntry = False, data_error = None \<rparr> \<rparr>]
         else [])"
    unfolding submission_success(1) [OF assms(1) k] by simp
  from c x p show ?thesis by blast
qed

theorem success_payload_unchanged_witness:
  "ready sample_typed \<and> 200 \<le> status \<lparr> status = 200 \<rparr> \<and> status \<lparr> status = 200 \<rparr> \<le> 299
   \<and> classify (CallResolved \<lparr> status = 200 \<rparr> (Inr sample_body)) = Success sample_body
   \<and> posted (snd (submission sample_embedded (CallResolved \<lparr> status = 200 \<rparr> (Inr sample_body))
          sample_typed)) =
        [\<lparr> msg_type = ''deliverease-open-popup'',
           msg_data = Popup \<lparr> data_phoneNumber = ''12345678'',
             data_address = Some [(''street'', ''Storgata 1''), (''postalCode'', ''0155''),
               (''city'', ''Oslo'')],
             data_manualEntry = False, data_error = None \<rparr> \<rparr>]"
proof -
  have r: "ready sample_typed" by (rule sample_typed_ready)
  have lo: "200 \<le> status \<lparr> status = 200 \<rparr>" and hi: "status \<lparr> status = 200 \<rparr> \<le> 299"
    by simp_all
  from success_payload_unchanged [OF r lo hi, of sample_body sample_embedded] r
  show ?thesis
    by (simp add: sample_fields sample_body_def)
qed

text \<open>
  C10. After a submission that ends in a success the phone field and the stored phone
  number are empty and the submit button is disabled (the empty string is not a valid
  number); after a rate-limited, timed-out or failed submission the field and the
  stored number are what they were.
\<close>

theorem phone_reset_only_on_success:
  assumes "ready w"
  shows "(classify l = Success body \<longrightarrow>
            input_value (fst (submission env l w)) = []
            \<and> phoneNumber (fst (submission env l w)) = []
            \<and> button_disabled (fst (submission env l w))
            \<and> \<not> validatePhoneNumber [])
    \<and> (classify l = RateLimited \<or> classify l = TimedOut \<or> classify l = GenericFailure \<longrightarrow>
            input_value (fst (submission env l w)) = input_value w
            \<and> phoneNumber (fst (submission env l w)) = phoneNumber w)"
proof (cases l rule: lookup_cases)
  case (rejected e)
  then show ?thesis
    by (simp add: submission_rejected(2,3) [OF assms] classify_exception_cases)
next
  case (rate_limited r j)
  then show ?thesis
    by (auto simp: submission_rate_limited(2,3) [OF assms rate_limited(2)])
next
  case (not_ok r j)
  then show ?thesis
    by (simp add: submission_not_ok(2,3) [OF assms not_ok(2-4)] ok_def)
next
  case (json_failed r e)
  then show ?thesis
    by (simp add: submission_json_failed(2,3) [OF assms json_failed(2)] classify_exception_cases)
next
  case (success r body')
  with ok_not_rate_limited [of r] show ?thesis
    by (simp add: submission_success(2-4) [OF assms success(2)] ok_def not_valid_Nil)
qed

theorem phone_reset_only_on_success_witness:
  "ready sample_typed
   \<and> classify (CallResolved \<lparr> status = 200 \<rparr> (Inr sample_body)) = Success sample_body
   \<and> input_value (fst (submission sample_standalone
         (CallResolved \<lparr> status = 200 \<rparr> (Inr sample_body)) sample_typed)) = []
   \<and> phoneNumber (fst (submission sample_standalone
         (CallResolved \<lparr> status = 200 \<rparr> (Inr sample_body)) sample_typed)) = []
   \<and> button_disabled (fst (submission sample_standalone
         (CallResolved \<lparr> status = 200 \<rparr> (Inr sample_body)) sample_typed))
   \<and> classify (CallResolved \<lparr> status = 503 \<rparr> (Inr sample_body)) = RateLimited
   \<and> phoneNumber (fst (submission sample_standalone
         (CallResolved \<lparr> status = 503 \<rparr> (Inr sample_body)) sample_typed)) = ''12345678''
   \<and> input_value (fst (submission sample_standalone
         (CallResolved \<lparr> status = 503 \<rparr> (Inr sample_body)) sample_typed)) = ''12345678''"
proof -
  have r: "ready sample_typed" by (rule sample_typed_ready)
  from phone_reset_only_on_success [OF r,
      of "CallResolved \<lparr> status = 200 \<rparr> (Inr sample_body)" sample_body sample_standalone]
    phone_reset_only_on_success [OF r,
      of "CallResolved \<lparr> status = 503 \<rparr> (Inr sample_body)" sample_body sample_standalone] r
  show ?thesis
    by (simp add: sample_fields)
qed

text \<open>
  C1, as amended. For every submission of an embedded widget exactly one message is
  posted to the parent, of type \<open>deliverease-open-popup\<close> with the payload of the
  outcome; no local modal is rendered for any outcome and no local toast for a
  rate-limited, timed-out or failed submission; after a success the local success
  toast is shown.
\<close>

theorem embedded_posts_once:
  assumes "embedded env" and "ready w"
  shows "posted (snd (submission env l w)) =
      [\<lparr> msg_type = ''deliverease-open-popup'',
         msg_data = Popup (popup_for env (phoneNumber w) (classify l)) \<rparr>]
    \<and> local_ui (snd (submission env l w)) =
      (case classify l of
         Success body \<Rightarrow> [ShowToast (addressFound (TRANSLATIONS env)) False]
       | _ \<Rightarrow> [])"
proof (cases l rule: lookup_cases)
  case (rejected e)
  with assms(1) show ?thesis
    by (simp add: submission_rejected(1) [OF assms(2)] catch_block_def Let_def
        posted_manual_entry_request classify_exception_def)
next
  case (rate_limited r j)
  with assms(1) show ?thesis
    by (auto simp: submission_rate_limited(1) [OF assms(2) rate_limited(2)]
        posted_manual_entry_request)
next
  case (not_ok r j)
  with assms(1) show ?thesis
    by (simp add: submission_not_ok(1) [OF assms(2) not_ok(2-4)] catch_block_def Let_def
        posted_manual_entry_request ok_def)
next
  case (json_failed r e)
  with assms(1) ok_not_rate_limited [of r] show ?thesis
    by (simp add: submission_json_failed(1) [OF assms(2) json_failed(2)] catch_block_def
        Let_def posted_manual_entry_request classify_exception_def ok_def)
next
  case (success r body)
  with assms(1) ok_not_rate_limited [of r] show ?thesis
    by (simp add: submission_success(1) [OF assms(2) success(2)] ok_def)
qed

theorem embedded_posts_once_witness:
  "embedded sample_embedded \<and> ready sample_typed
   \<and> classify (CallRejected (Error ''ApiTimeoutError'') :: unit lookup) = TimedOut
   \<and> posted (snd (submission sample_embedded
          (CallRejected (Error ''ApiTimeoutError'') :: unit lookup) sample_typed)) =
        [\<lparr> msg_type = ''deliverease-open-popup'',
           msg_data = Popup \<lparr> data_phoneNumber = ''12345678'', data_address = None,
             data_manualEntry = True,
             data_error = Some
               ''Request took too long. Please try again or enter the address manually.'' \<rparr> \<rparr>]
   \<and> local_ui (snd (submission sample_embedded
          (CallRejected (Error ''ApiTimeoutError'') :: unit lookup) sample_typed)) = []"
proof -
  have e: "embedded sample_embedded" by (simp add: sample_fields)
  have r: "ready sample_typed" by (rule sample_typed_ready)
  from embedded_posts_once [OF e r, of "CallRejected (Error ''ApiTimeoutError'') :: unit lookup"] e r
  show ?thesis
    by (simp add: sample_fields classify_exception_def)
qed

text \<open>
  The claim as stated fails for a success: the embedded widget posts the message and
  then shows the local toast all the same.
\<close>

theorem embedded_success_toast_counterexample:
  "embedded sample_embedded \<and> ready sample_typed
   \<and> classify (CallResolved \<lparr> status = 200 \<rparr> (Inr sample_body)) = Success sample_body
   \<and> local_ui (snd (submission sample_embedded
          (CallResolved \<lparr> status = 200 \<rparr> (Inr sample_body)) sample_typed)) =
        [ShowToast ''Address found! Updating delivery options...'' False]"
proof -
  have k: "ok \<lparr> status = 200 \<rparr>" by (simp add: ok_def)
  show ?thesis
    by (simp add: submission_success(1) [OF sample_typed_ready k] sample_fields
        sample_typed_ready)
qed

section \<open>Reachable states\<close>








end
